theory Spec2Isabelle
  imports Main
begin

section \<open>JavaScript values and the primitives the server uses\<close>

text \<open>
  The server (\<^verbatim>\<open>src/dist/index.js\<close>, version 1.3.0; the repository also holds an
  older TypeScript variant, version 1.0.0, whose POST handler knows \<^verbatim>\<open>initialize\<close>
  only) handles JSON: the body of a POST request as parsed by \<^verbatim>\<open>express.json()\<close> and
  the body of the upstream answer as parsed by axios. Both are trees of JavaScript values
  without functions. A read of a missing property gives \<^verbatim>\<open>undefined\<close>, so
  \<open>JUndefined\<close> is a value of the model although JSON text cannot spell it.

  A string is the sequence of its bytes in generalised UTF-8: a code point is its UTF-8
  bytes, a surrogate pair of the JavaScript string is the four bytes of its code point,
  and a surrogate without a partner is the three bytes \<^verbatim>\<open>ED A0..BF 80..BF\<close>, which
  well-formed UTF-8 never holds.

  The program does two things with a number: it tests it for truth and it prints it. A
  number is carried as the text that JavaScript prints for it (\<^verbatim>\<open>7\<close>, \<^verbatim>\<open>-32000\<close>,
  \<^verbatim>\<open>0.5\<close>, \<^verbatim>\<open>1e+21\<close>), which determines the number but for the sign of zero.
  An object is the list of its members in the order of the JSON text; of two members
  with one key the later one counts, as in \<^verbatim>\<open>JSON.parse\<close>.
\<close>

datatype jsval =
    JUndefined
  | JNull
  | JBool bool
  | JNum string
  | JStr string
  | JArr "jsval list"
  | JObj "(string \<times> jsval) list"

text \<open>
  What a \<^verbatim>\<open>TypeError\<close> or \<^verbatim>\<open>URIError\<close> of the engine is about. The text of
  its message belongs to the engine, not to the program, and is a parameter
  (\<open>engine_message\<close> below).
\<close>

datatype fault =
    ReadOfNullish jsval string   \<comment> \<open>a property read on \<^verbatim>\<open>undefined\<close> or \<^verbatim>\<open>null\<close>\<close>
  | NotAFunction string          \<comment> \<open>a call of a member that is no function\<close>
  | NoPrimitive                  \<comment> \<open>an object that cannot be converted to a string\<close>
  | MalformedURI                 \<comment> \<open>a surrogate without a partner in a text to encode\<close>

datatype exn =
    Error string      \<comment> \<open>\<^verbatim>\<open>new Error(message)\<close>, also the errors axios throws\<close>
  | TypeError fault
  | URIError fault

text \<open>
  What the program takes from its surroundings: the network behind \<^verbatim>\<open>axios.get\<close>
  (the parsed body of the answer, or the exception thrown), the Unicode case mapping
  behind \<^verbatim>\<open>String.prototype.toUpperCase\<close>, and the engine's wording of its errors.
\<close>

record host =
  axios_get :: "string \<Rightarrow> exn + jsval"
  toUpperCase :: "string \<Rightarrow> string"
  engine_message :: "fault \<Rightarrow> string"

fun message :: "host \<Rightarrow> exn \<Rightarrow> string" where
  "message h (Error m) = m"
| "message h (TypeError f) = engine_message h f"
| "message h (URIError f) = engine_message h f"

text \<open>Sequencing of computations that may throw: the first exception wins.\<close>

definition and_then :: "exn + 'a \<Rightarrow> ('a \<Rightarrow> exn + 'b) \<Rightarrow> exn + 'b" where
  "and_then m f = (case m of Inl e \<Rightarrow> Inl e | Inr x \<Rightarrow> f x)"

text \<open>\<^verbatim>\<open>ToBoolean\<close>: what \<^verbatim>\<open>!x\<close> and \<^verbatim>\<open>x || y\<close> test.\<close>

fun truthy :: "jsval \<Rightarrow> bool" where
  "truthy JUndefined = False"
| "truthy JNull = False"
| "truthy (JBool b) = b"
| "truthy (JNum t) = (t \<noteq> ''0'' \<and> t \<noteq> ''NaN'')"
| "truthy (JStr s) = (s \<noteq> [])"
| "truthy (JArr xs) = True"
| "truthy (JObj kvs) = True"

fun nullish :: "jsval \<Rightarrow> bool" where
  "nullish JUndefined = True"
| "nullish JNull = True"
| "nullish v = False"

text \<open>The member of an object under a key: the last one written, else \<^verbatim>\<open>undefined\<close>.\<close>

definition own_prop :: "(string \<times> jsval) list \<Rightarrow> string \<Rightarrow> jsval" where
  "own_prop kvs k = (case map_of (rev kvs) k of None \<Rightarrow> JUndefined | Some v \<Rightarrow> v)"

text \<open>The length of a string in UTF-16 code units, counted on its UTF-8 bytes.\<close>

definition utf16_units :: "char \<Rightarrow> nat" where
  "utf16_units c =
     (let b = (of_char c :: nat)
      in if b < 128 then 1 else if b < 192 then 0 else if b < 240 then 1 else 2)"

definition utf16_length :: "string \<Rightarrow> nat" where
  "utf16_length s = sum_list (map utf16_units s)"

text \<open>
  How a length or an index prints: in decimal digits. (JavaScript prints every whole
  number below \<^verbatim>\<open>1e21\<close> so, and no array or string is that long.)
\<close>

definition digit_char :: "nat \<Rightarrow> char" where
  "digit_char d = char_of (48 + d)"

fun show_nat :: "nat \<Rightarrow> string" where
  "show_nat n = (if n < 10 then [digit_char n] else show_nat (n div 10) @ [digit_char (n mod 10)])"

declare show_nat.simps [simp del]

text \<open>
  The property read \<^verbatim>\<open>v.k\<close>, for the keys the program reads as data
  (\<^verbatim>\<open>method id params arguments query data Data length type st_name p_name st_genre
  cat_name deeplink st_shorturl\<close>): none of them is inherited from a prototype, and only
  \<^verbatim>\<open>length\<close> is built into strings and arrays. On \<^verbatim>\<open>undefined\<close> and \<^verbatim>\<open>null\<close>
  the read throws.
\<close>

fun get_prop :: "jsval \<Rightarrow> string \<Rightarrow> exn + jsval" where
  "get_prop JUndefined k = Inl (TypeError (ReadOfNullish JUndefined k))"
| "get_prop JNull k = Inl (TypeError (ReadOfNullish JNull k))"
| "get_prop (JObj kvs) k = Inr (own_prop kvs k)"
| "get_prop (JStr s) k =
     Inr (if k = ''length'' then JNum (show_nat (utf16_length s)) else JUndefined)"
| "get_prop (JArr xs) k =
     Inr (if k = ''length'' then JNum (show_nat (length xs)) else JUndefined)"
| "get_prop v k = Inr JUndefined"

text \<open>Optional chaining \<^verbatim>\<open>v?.k\<close> and the right-hand default of \<^verbatim>\<open>v ?? d\<close>.\<close>

definition opt_chain :: "jsval \<Rightarrow> string \<Rightarrow> exn + jsval" where
  "opt_chain v k = (if nullish v then Inr JUndefined else get_prop v k)"

definition coalesce :: "jsval \<Rightarrow> jsval \<Rightarrow> jsval" where
  "coalesce v d = (if nullish v then d else v)"

text \<open>
  \<^verbatim>\<open>ToString\<close>, which every \<^verbatim>\<open>${...}\<close> of a template literal applies. An array is
  its elements joined by commas, \<^verbatim>\<open>undefined\<close> and \<^verbatim>\<open>null\<close> elements printing as
  nothing. A plain object prints as \<^verbatim>\<open>[object Object]\<close> through the inherited
  \<^verbatim>\<open>toString\<close>; a member of its own under that key hides the inherited function, is
  no function itself (JSON has none), and the conversion throws.
\<close>

fun toString_js :: "jsval \<Rightarrow> exn + string"
  and join_elems :: "jsval list \<Rightarrow> exn + string" where
  "toString_js JUndefined = Inr ''undefined''"
| "toString_js JNull = Inr ''null''"
| "toString_js (JBool b) = Inr (if b then ''true'' else ''false'')"
| "toString_js (JNum t) = Inr t"
| "toString_js (JStr s) = Inr s"
| "toString_js (JArr xs) = join_elems xs"
| "toString_js (JObj kvs) =
     (if ''toString'' \<in> fst ` set kvs then Inl (TypeError NoPrimitive)
      else Inr ''[object Object]'')"
| "join_elems [] = Inr ''''"
| "join_elems (x # xs) =
     (case (if nullish x then Inr '''' else toString_js x) of
        Inl e \<Rightarrow> Inl e
      | Inr s \<Rightarrow>
          (if xs = [] then Inr s
           else (case join_elems xs of Inl e \<Rightarrow> Inl e | Inr r \<Rightarrow> Inr (s @ '','' @ r))))"

text \<open>
  \<^verbatim>\<open>encodeURIComponent\<close>: on a text with a surrogate that has no partner it throws a
  \<^verbatim>\<open>URIError\<close>; otherwise every byte of the UTF-8 text that is not an unreserved
  character becomes \<^verbatim>\<open>%XX\<close>.
\<close>

definition unreserved :: "char \<Rightarrow> bool" where
  "unreserved c =
     (c \<in> set ''ABCDEFGHIJKLMNOPQRSTUVWXYZabcdefghijklmnopqrstuvwxyz0123456789-_.!~*()''
      \<or> c = CHR 0x27)"

definition hex_digit :: "nat \<Rightarrow> char" where
  "hex_digit d = ''0123456789ABCDEF'' ! (d mod 16)"

fun unpaired_surrogate :: "string \<Rightarrow> bool" where
  "unpaired_surrogate (a # b # cs) =
     ((a = CHR 0xED \<and> 160 \<le> (of_char b :: nat)) \<or> unpaired_surrogate (b # cs))"
| "unpaired_surrogate cs = False"

definition percent_encode :: "string \<Rightarrow> string" where
  "percent_encode s =
     concat (map (\<lambda>c. if unreserved c then [c]
                      else [CHR ''%'', hex_digit (of_char c div 16), hex_digit (of_char c mod 16)]) s)"

definition encodeURIComponent :: "string \<Rightarrow> exn + string" where
  "encodeURIComponent s =
     (if unpaired_surrogate s then Inl (URIError MalformedURI) else Inr (percent_encode s))"

text \<open>\<^verbatim>\<open>Array.prototype.join\<close> on strings.\<close>

fun join_str :: "string \<Rightarrow> string list \<Rightarrow> string" where
  "join_str sep [] = ''''"
| "join_str sep [x] = x"
| "join_str sep (x # y # ys) = x @ sep @ join_str sep (y # ys)"

text \<open>
  \<^verbatim>\<open>Array.prototype.map\<close> with a callback that may throw: the elements in order, each
  with its index, stopping at the first exception.
\<close>

fun map_js :: "(jsval \<Rightarrow> nat \<Rightarrow> exn + 'b) \<Rightarrow> nat \<Rightarrow> jsval list \<Rightarrow> exn + 'b list" where
  "map_js f i [] = Inr []"
| "map_js f i (x # xs) =
     (case f x i of
        Inl e \<Rightarrow> Inl e
      | Inr y \<Rightarrow> (case map_js f (Suc i) xs of Inl e \<Rightarrow> Inl e | Inr ys \<Rightarrow> Inr (y # ys)))"

text \<open>
  The call \<^verbatim>\<open>v.map(f)\<close>: only an array has the function; on any other value that is
  not nullish the member is \<^verbatim>\<open>undefined\<close> or a JSON value, and calling it throws.
\<close>

fun call_map :: "string \<Rightarrow> jsval \<Rightarrow> (jsval \<Rightarrow> nat \<Rightarrow> exn + 'b) \<Rightarrow> exn + 'b list" where
  "call_map site (JArr xs) f = map_js f 0 xs"
| "call_map site JUndefined f = Inl (TypeError (ReadOfNullish JUndefined ''map''))"
| "call_map site JNull f = Inl (TypeError (ReadOfNullish JNull ''map''))"
| "call_map site v f = Inl (TypeError (NotAFunction site))"

text \<open>The call \<^verbatim>\<open>v.toUpperCase()\<close>: only a string has the function.\<close>

fun call_toUpperCase :: "host \<Rightarrow> string \<Rightarrow> jsval \<Rightarrow> exn + string" where
  "call_toUpperCase h site (JStr s) = Inr (toUpperCase h s)"
| "call_toUpperCase h site JUndefined = Inl (TypeError (ReadOfNullish JUndefined ''toUpperCase''))"
| "call_toUpperCase h site JNull = Inl (TypeError (ReadOfNullish JNull ''toUpperCase''))"
| "call_toUpperCase h site v = Inl (TypeError (NotAFunction site))"

section \<open>The tool: \<^verbatim>\<open>listTools\<close> and \<^verbatim>\<open>callTool\<close>\<close>

definition RADIOFM_API :: string where
  "RADIOFM_API = ''https://devappradiofm.radiofm.co/rfm/api''"

text \<open>The characters of the templates that are not ASCII, as UTF-8 bytes, and the others
  that a string literal of the logic cannot hold.\<close>

definition magnifier :: string where   \<comment> \<open>U+1F50D\<close>
  "magnifier = [CHR 0xF0, CHR 0x9F, CHR 0x94, CHR 0x8D]"

definition headphone :: string where   \<comment> \<open>U+1F3A7\<close>
  "headphone = [CHR 0xF0, CHR 0x9F, CHR 0x8E, CHR 0xA7]"

definition play_mark :: string where   \<comment> \<open>U+25B6\<close>
  "play_mark = [CHR 0xE2, CHR 0x96, CHR 0xB6]"

definition newline :: string where
  "newline = [CHR 0x0A]"

definition dquote :: string where
  "dquote = [CHR 0x22]"

definition listTools :: jsval where
  "listTools =
     JObj [(''tools'', JArr [
       JObj [(''name'', JStr ''search_radio_stations''),
             (''description'', JStr
                ''Search for radio stations and podcasts on RadioFM by name, language, country, or genre.''),
             (''inputSchema'', JObj [
                (''type'', JStr ''object''),
                (''properties'', JObj [
                   (''query'', JObj [
                      (''type'', JStr ''string''),
                      (''description'', JStr
                         (''Search term (e.g., '' @ [CHR 0x27] @ ''BBC'' @ [CHR 0x27] @ '', ''
                          @ [CHR 0x27] @ ''India'' @ [CHR 0x27] @ '', ''
                          @ [CHR 0x27] @ ''Hindi'' @ [CHR 0x27] @ '', ''
                          @ [CHR 0x27] @ ''Jazz'' @ [CHR 0x27] @ '', ''
                          @ [CHR 0x27] @ ''News'' @ [CHR 0x27] @ '')''))])]),
                (''required'', JArr [JStr ''query''])])]])]"

text \<open>The value \<^verbatim>\<open>{ content: [{ type: "text", text }] }\<close> that \<^verbatim>\<open>callTool\<close> returns.\<close>

definition tool_result :: "string \<Rightarrow> jsval" where
  "tool_result text = JObj [(''content'', JArr [JObj [(''type'', JStr ''text''), (''text'', JStr text)]])]"

text \<open>
  The callback of the inner \<^verbatim>\<open>map\<close>, for one item of a group at index \<open>i\<close>: its
  three constants \<^verbatim>\<open>name\<close>, \<^verbatim>\<open>genre\<close> and \<^verbatim>\<open>link\<close>, then the template.
\<close>

definition item_name :: "jsval \<Rightarrow> exn + jsval" where
  "item_name item =
     and_then (get_prop item ''st_name'') (\<lambda>st_name.
       if truthy st_name then Inr st_name else get_prop item ''p_name'')"

definition item_genre :: "jsval \<Rightarrow> exn + jsval" where
  "item_genre item =
     and_then (get_prop item ''st_genre'') (\<lambda>st_genre.
       if truthy st_genre then Inr st_genre else get_prop item ''cat_name'')"

definition item_link :: "jsval \<Rightarrow> exn + jsval" where
  "item_link item =
     and_then (get_prop item ''deeplink'') (\<lambda>deeplink.
       if truthy deeplink then Inr deeplink
       else and_then (get_prop item ''st_shorturl'') (\<lambda>st_shorturl.
            and_then (toString_js st_shorturl) (\<lambda>u.
              Inr (JStr (''https://appradiofm.com/radioplay/'' @ u)))))"

definition format_item :: "jsval \<Rightarrow> nat \<Rightarrow> exn + string" where
  "format_item item i =
     and_then (item_name item) (\<lambda>name.
     and_then (item_genre item) (\<lambda>genre.
     and_then (item_link item) (\<lambda>link.
     and_then (toString_js name) (\<lambda>name_text.
     and_then (toString_js genre) (\<lambda>genre_text.
     and_then (toString_js link) (\<lambda>link_text.
       Inr (show_nat (i + 1) @ ''. '' @ name_text @ '' ('' @ genre_text @ '')'' @ newline
            @ play_mark @ '' '' @ link_text)))))))"

text \<open>The callback of the outer \<^verbatim>\<open>map\<close>: one group of the upstream answer.\<close>

definition format_group :: "host \<Rightarrow> jsval \<Rightarrow> nat \<Rightarrow> exn + string" where
  "format_group h grp g =
     and_then (get_prop grp ''type'') (\<lambda>group_type.
     and_then (call_toUpperCase h ''group.type.toUpperCase'' group_type) (\<lambda>type.
     and_then (get_prop grp ''data'') (\<lambda>group_data.
     and_then (call_map ''(group.data || []).map''
                 (if truthy group_data then group_data else JArr []) format_item) (\<lambda>entries.
       Inr (newline @ headphone @ '' '' @ type @ newline @ join_str newline entries)))))"

definition callTool :: "host \<Rightarrow> jsval \<Rightarrow> exn + jsval" where
  "callTool h query =
     (if \<not> truthy query then Inl (Error ''Missing query term.'')
      else
        and_then (toString_js query) (\<lambda>query_text.
        and_then (encodeURIComponent query_text) (\<lambda>srch.
        and_then (axios_get h (RADIOFM_API @ ''/new_combo_search.php?srch='' @ srch)) (\<lambda>data.
        and_then (get_prop data ''data'') (\<lambda>data_data.
        and_then (opt_chain data_data ''Data'') (\<lambda>data_Data.
        and_then (get_prop (coalesce data_Data (JArr [])) ''length'') (\<lambda>results_length.
          if \<not> truthy results_length then
            and_then (toString_js query) (\<lambda>q.
              Inr (tool_result (magnifier @ '' No results found for '' @ dquote @ q @ dquote
                     @ ''. Try different station names, countries, or genres.'')))
          else
            and_then (call_map ''results.map'' (coalesce data_Data (JArr [])) (format_group h)) (\<lambda>blocks.
            and_then (toString_js query) (\<lambda>q.
              Inr (tool_result (magnifier @ '' Results for '' @ dquote @ q @ dquote @ '':'' @ newline
                     @ join_str newline blocks)))))))))))"

section \<open>The two transports\<close>


text \<open>
  What \<^verbatim>\<open>POST /mcp\<close> writes: the status (200 unless \<^verbatim>\<open>res.status\<close> sets it), the
  value the handler sets for the \<^verbatim>\<open>Content-Type\<close> header, and the object given to
  \<^verbatim>\<open>res.json\<close>. A member of that object whose value is \<^verbatim>\<open>undefined\<close> (the id of
  a request that has none) is left out when the object is written as JSON text.
\<close>

record response =
  status :: nat
  content_type :: string
  payload :: jsval

definition json_response :: "nat \<Rightarrow> jsval \<Rightarrow> response" where
  "json_response code v = \<lparr>status = code, content_type = ''application/json'', payload = v\<rparr>"

definition rpc_result :: "jsval \<Rightarrow> jsval \<Rightarrow> jsval" where
  "rpc_result rid result = JObj [(''jsonrpc'', JStr ''2.0''), (''id'', rid), (''result'', result)]"

definition rpc_error :: "jsval \<Rightarrow> jsval \<Rightarrow> string \<Rightarrow> jsval" where
  "rpc_error rid code msg =
     JObj [(''jsonrpc'', JStr ''2.0''), (''id'', rid),
           (''error'', JObj [(''code'', code), (''message'', JStr msg)])]"

definition initialize_result :: jsval where
  "initialize_result =
     JObj [(''protocolVersion'', JStr ''2025-06-18''),
           (''capabilities'', JObj [(''tools'', JObj [])]),
           (''serverInfo'', JObj [(''name'', JStr ''radiofm-mcp-server''), (''version'', JStr ''1.3.0'')])]"

text \<open>The body of the \<^verbatim>\<open>try\<close> block of the POST handler.\<close>

definition post_try :: "host \<Rightarrow> jsval \<Rightarrow> jsval \<Rightarrow> jsval \<Rightarrow> exn + response" where
  "post_try h method rid params =
     (if method = JStr ''initialize'' then
        Inr (json_response 200 (rpc_result rid initialize_result))
      else if method = JStr ''tools/list'' then
        and_then (get_prop listTools ''tools'') (\<lambda>tools.
          Inr (json_response 200 (rpc_result rid (JObj [(''tools'', tools)]))))
      else if method = JStr ''tools/call'' then
        and_then (opt_chain params ''arguments'') (\<lambda>arguments.
        and_then (opt_chain arguments ''query'') (\<lambda>query.
        and_then (callTool h query) (\<lambda>result.
          Inr (json_response 200 (rpc_result rid result)))))
      else
        and_then (toString_js method) (\<lambda>m.
          Inr (json_response 400 (rpc_error rid (JNum ''-32601'') (''Unknown method: '' @ m)))))"

text \<open>
  The POST handler. The destructuring of \<^verbatim>\<open>req.body\<close> stands before the \<^verbatim>\<open>try\<close>:
  an exception there leaves the handler. Everything thrown inside the \<^verbatim>\<open>try\<close> is
  answered by the \<^verbatim>\<open>catch\<close>.
\<close>

datatype outcome = Responded response | Unhandled exn

text \<open>The error code that the \<^verbatim>\<open>catch\<close> block gives to every exception.\<close>

definition internal_error_code :: jsval where
  "internal_error_code = JNum ''-32000''"

definition post_mcp :: "host \<Rightarrow> jsval \<Rightarrow> outcome" where
  "post_mcp h body =
     (case and_then (get_prop body ''method'') (\<lambda>method.
           and_then (get_prop body ''id'') (\<lambda>rid.
           and_then (get_prop body ''params'') (\<lambda>params. Inr (method, rid, params)))) of
        Inl e \<Rightarrow> Unhandled e
      | Inr (method, rid, params) \<Rightarrow>
          (case post_try h method rid params of
             Inr r \<Rightarrow> Responded r
           | Inl err \<Rightarrow>
               Responded (json_response 500
                 (rpc_error rid internal_error_code
                    (if message h err \<noteq> [] then message h err else ''Internal error'')))))"

text \<open>
  The listener: requests are answered one after the other, each from its own body only.
  The model follows a run up to the first exception that leaves a handler.
\<close>

fun serve :: "host \<Rightarrow> jsval list \<Rightarrow> outcome list" where
  "serve h [] = []"
| "serve h (body # rest) =
     (case post_mcp h body of
        Responded r \<Rightarrow> Responded r # serve h rest
      | Unhandled e \<Rightarrow> [Unhandled e])"

section \<open>Hosts and requests used as examples\<close>

text \<open>A case mapping for the examples: the letters \<^verbatim>\<open>a\<close> to \<^verbatim>\<open>z\<close>.\<close>

definition ascii_upper :: "string \<Rightarrow> string" where
  "ascii_upper s =
     map (\<lambda>c. if 97 \<le> (of_char c :: nat) \<and> (of_char c :: nat) \<le> 122
              then char_of (of_char c - (32::nat)) else c) s"

text \<open>A host whose upstream answers every request with the same body.\<close>

definition answering :: "jsval \<Rightarrow> host" where
  "answering body =
     \<lparr>axios_get = (\<lambda>url. Inr body),
      toUpperCase = ascii_upper,
      engine_message = (\<lambda>f. ''type error'')\<rparr>"

text \<open>A host whose upstream cannot be reached, and one whose exception has no text.\<close>

definition offline_host :: host where
  "offline_host =
     \<lparr>axios_get = (\<lambda>url. Inl (Error ''Network Error'')),
      toUpperCase = ascii_upper,
      engine_message = (\<lambda>f. ''type error'')\<rparr>"

definition silent_host :: host where
  "silent_host =
     \<lparr>axios_get = (\<lambda>url. Inl (Error [])),
      toUpperCase = ascii_upper,
      engine_message = (\<lambda>f. ''type error'')\<rparr>"

text \<open>The body of a \<^verbatim>\<open>tools/call\<close> request.\<close>

definition call_request :: "jsval \<Rightarrow> jsval \<Rightarrow> jsval" where
  "call_request rid params =
     JObj [(''jsonrpc'', JStr ''2.0''), (''id'', rid), (''method'', JStr ''tools/call''),
           (''params'', params)]"

text \<open>The members \<^verbatim>\<open>error.code\<close> and \<^verbatim>\<open>error.message\<close> of what a request was answered.\<close>

definition error_code_of :: "outcome \<Rightarrow> exn + jsval" where
  "error_code_of out =
     (case out of
        Responded r \<Rightarrow> and_then (get_prop (payload r) ''error'') (\<lambda>e. get_prop e ''code'')
      | Unhandled e \<Rightarrow> Inl e)"

definition error_message_of :: "outcome \<Rightarrow> exn + jsval" where
  "error_message_of out =
     (case out of
        Responded r \<Rightarrow> and_then (get_prop (payload r) ''error'') (\<lambda>e. get_prop e ''message'')
      | Unhandled e \<Rightarrow> Inl e)"

section \<open>The data model and the text, in the words of the specification\<close>

text \<open>
  What follows describes requests, upstream answers and texts without the program: the
  theorems state what the program does in these terms.

  The member of a JSON value under a key: of an object the member written last under
  that key, and absent (\<open>JUndefined\<close>) where the object has none or the value is no
  object.
\<close>

fun member :: "jsval \<Rightarrow> string \<Rightarrow> jsval" where
  "member (JObj kvs) k = (case map_of (rev kvs) k of Some v \<Rightarrow> v | None \<Rightarrow> JUndefined)"
| "member v k = JUndefined"

text \<open>A member that is absent or a primitive value: no array and no object.\<close>

fun primitive :: "jsval \<Rightarrow> bool" where
  "primitive (JArr xs) = False"
| "primitive (JObj kvs) = False"
| "primitive v = True"

text \<open>
  A value that \<^verbatim>\<open>||\<close> keeps: every value but the absent one, \<^verbatim>\<open>null\<close>, \<^verbatim>\<open>false\<close>,
  zero, \<^verbatim>\<open>NaN\<close> and the empty string.
\<close>

fun is_set :: "jsval \<Rightarrow> bool" where
  "is_set JUndefined = False"
| "is_set JNull = False"
| "is_set (JBool b) = b"
| "is_set (JNum t) = (t \<notin> {''0'', ''NaN''})"
| "is_set (JStr s) = (s \<noteq> [])"
| "is_set v = True"

definition chosen :: "jsval \<Rightarrow> jsval \<Rightarrow> jsval" where
  "chosen a b = (if is_set a then a else b)"

text \<open>
  The text of a primitive value in a line: a string as it is, a number and a boolean as
  they are written, \<^verbatim>\<open>null\<close> and the absent member as the words \<^verbatim>\<open>null\<close> and
  \<^verbatim>\<open>undefined\<close>. (Of an array or an object nothing is said.)
\<close>

fun rendered :: "jsval \<Rightarrow> string" where
  "rendered (JStr s) = s"
| "rendered (JNum t) = t"
| "rendered (JBool b) = (if b then ''true'' else ''false'')"
| "rendered JNull = ''null''"
| "rendered JUndefined = ''undefined''"
| "rendered v = []"

text \<open>The decimal numeral of a natural number.\<close>

fun decimal :: "nat \<Rightarrow> string" where
  "decimal n =
     (if n < 10 then [''0123456789'' ! n]
      else decimal (n div 10) @ [''0123456789'' ! (n mod 10)])"

declare decimal.simps [simp del]

text \<open>
  The two lines of an item with the number \<open>k\<close>: the numbered entry with the display
  name and the category, and the link line.
\<close>

definition item_members :: "string list" where
  "item_members = [''st_name'', ''p_name'', ''st_genre'', ''cat_name'', ''deeplink'', ''st_shorturl'']"

definition entry_line :: "nat \<Rightarrow> jsval \<Rightarrow> string" where
  "entry_line k item =
     decimal k @ ''. ''
     @ rendered (chosen (member item ''st_name'') (member item ''p_name''))
     @ '' ('' @ rendered (chosen (member item ''st_genre'') (member item ''cat_name'')) @ '')''"

definition link_line :: "jsval \<Rightarrow> string" where
  "link_line item =
     [CHR 0xE2, CHR 0x96, CHR 0xB6] @ '' ''
     @ rendered (chosen (member item ''deeplink'')
         (JStr (''https://appradiofm.com/radioplay/'' @ rendered (member item ''st_shorturl''))))"

text \<open>The lines of a text, and a text without a line break.\<close>

fun lines_of :: "string \<Rightarrow> string list" where
  "lines_of [] = [[]]"
| "lines_of (c # cs) =
     (if c = CHR 0x0A then [] # lines_of cs
      else (case lines_of cs of [] \<Rightarrow> [[c]] | l # ls \<Rightarrow> (c # l) # ls))"

definition one_line :: "string \<Rightarrow> bool" where
  "one_line s = (CHR 0x0A \<notin> set s)"

text \<open>
  A group-header line begins with the headphone sign and a blank; the header of a group
  carries its type label in upper case. A numbered-entry line begins with a decimal
  numeral, a full stop and a blank.
\<close>

definition is_header_line :: "string \<Rightarrow> bool" where
  "is_header_line l = (take 5 l = [CHR 0xF0, CHR 0x9F, CHR 0x8E, CHR 0xA7, CHR '' ''])"

definition is_digit :: "char \<Rightarrow> bool" where
  "is_digit c = (c \<in> set ''0123456789'')"

definition is_entry_line :: "string \<Rightarrow> bool" where
  "is_entry_line l = (takeWhile is_digit l \<noteq> [] \<and> take 2 (dropWhile is_digit l) = ''. '')"

definition group_label :: "jsval \<Rightarrow> string" where
  "group_label g = (case member g ''type'' of JStr t \<Rightarrow> t | _ \<Rightarrow> [])"

definition group_items :: "jsval \<Rightarrow> jsval list" where
  "group_items g = (case member g ''data'' of JArr items \<Rightarrow> items | _ \<Rightarrow> [])"

definition header_line :: "host \<Rightarrow> jsval \<Rightarrow> string" where
  "header_line h g =
     [CHR 0xF0, CHR 0x9F, CHR 0x8E, CHR 0xA7, CHR '' ''] @ toUpperCase h (group_label g)"

text \<open>
  The upstream answer as the specification types it, with what the lines of a text ask
  for: an item is any value but \<^verbatim>\<open>null\<close> whose six members are absent or primitive
  and hold no line break; a group has a string \<^verbatim>\<open>type\<close> whose upper case holds no line
  break, and a \<^verbatim>\<open>data\<close> member that is an array of items or is not set.
\<close>

definition is_item :: "jsval \<Rightarrow> bool" where
  "is_item item =
     (item \<noteq> JNull \<and> item \<noteq> JUndefined
      \<and> list_all (\<lambda>k. primitive (member item k) \<and> one_line (rendered (member item k))) item_members)"

definition is_group :: "host \<Rightarrow> jsval \<Rightarrow> bool" where
  "is_group h g =
     ((case member g ''type'' of JStr t \<Rightarrow> one_line (toUpperCase h t) | _ \<Rightarrow> False)
      \<and> (case member g ''data'' of JArr items \<Rightarrow> list_all is_item items | d \<Rightarrow> \<not> is_set d))"

text \<open>A text without a surrogate that lacks its partner: no byte \<^verbatim>\<open>ED\<close> is followed by
  a byte from \<^verbatim>\<open>A0\<close> on.\<close>

definition well_formed_text :: "string \<Rightarrow> bool" where
  "well_formed_text s =
     list_all (\<lambda>(a, b). \<not> (a = CHR 0xED \<and> 160 \<le> (of_char b :: nat))) (zip s (tl s))"

text \<open>The text of a tool result with one entry; empty where there is no such result.\<close>

definition text_of :: "exn + jsval \<Rightarrow> string" where
  "text_of r =
     (case r of
        Inr v \<Rightarrow>
          (case member v ''content'' of
             JArr [entry] \<Rightarrow> (case member entry ''text'' of JStr s \<Rightarrow> s | _ \<Rightarrow> [])
           | _ \<Rightarrow> [])
      | Inl e \<Rightarrow> [])"

text \<open>An upstream answer with two groups, of two items and of one.\<close>

definition bbc_body :: jsval where
  "bbc_body =
     JObj [(''data'', JObj [(''Data'', JArr [
       JObj [(''type'', JStr ''station''),
             (''data'', JArr [
                JObj [(''st_name'', JStr ''BBC Radio 1''), (''st_genre'', JStr ''Pop''),
                      (''st_shorturl'', JStr ''bbc1'')],
                JObj [(''st_name'', JStr ''BBC Radio 2''), (''st_genre'', JStr ''Adult''),
                      (''deeplink'', JStr ''https://rfm.example/bbc2'')]])],
       JObj [(''type'', JStr ''podcast''),
             (''data'', JArr [
                JObj [(''p_name'', JStr ''BBC Newscast''), (''cat_name'', JStr ''News''),
                      (''st_shorturl'', JStr ''newscast'')]])]])])]"


text \<open>
  The lines of the items of a group, numbered from \<open>k\<close>, and the lines of the block
  of a group: an empty line, the header, and the lines of its items (one empty line where
  it has no item).
\<close>

fun entry_lines :: "nat \<Rightarrow> jsval list \<Rightarrow> string list" where
  "entry_lines k [] = []"
| "entry_lines k (item # items) = entry_line k item # link_line item # entry_lines (Suc k) items"

definition block_lines :: "host \<Rightarrow> jsval \<Rightarrow> string list" where
  "block_lines h g =
     [] # header_line h g
     # (if group_items g = [] then [[]] else entry_lines 1 (group_items g))"

text \<open>
  An upstream answer with one group of one item, whose name holds two line breaks.
\<close>

definition tricky_group :: jsval where
  "tricky_group =
     JObj [(''type'', JStr ''station''),
           (''data'', JArr [
              JObj [(''st_name'', JStr (''x'' @ [CHR 0x0A] @ [CHR 0xF0, CHR 0x9F, CHR 0x8E, CHR 0xA7]
                                       @ '' FAKE'' @ [CHR 0x0A] @ ''2. y'')),
                    (''st_genre'', JStr ''Pop''), (''st_shorturl'', JStr ''bbc1'')]])]"

definition tricky_body :: jsval where
  "tricky_body = JObj [(''data'', JObj [(''Data'', JArr [tricky_group])])]"

section \<open>Basic facts\<close>

lemma and_then_Inl [simp]: "and_then (Inl e) f = Inl e"
  by (simp add: and_then_def)

lemma and_then_Inr [simp]: "and_then (Inr x) f = f x"
  by (simp add: and_then_def)

lemma get_prop_total: "\<not> nullish v \<Longrightarrow> \<exists>x. get_prop v k = Inr x"
  by (cases v) simp_all

lemma get_prop_not_nullish: "get_prop v k = Inr x \<Longrightarrow> \<not> nullish v"
  by (cases v) simp_all

lemma get_prop_other: "get_prop v k = Inr x \<Longrightarrow> \<exists>y. get_prop v k' = Inr y"
  using get_prop_total get_prop_not_nullish by blast

lemma show_nat_one: "show_nat (Suc 0) = ''1''"
  by code_simp

lemma ascii_upper_station: "ascii_upper ''station'' = ''STATION''"
  by code_simp

lemma opt_chain_total: "\<exists>x. opt_chain v k = Inr x"
  by (cases v) (simp_all add: opt_chain_def)

text \<open>The POST handler once the three members of the body are read: the \<^verbatim>\<open>try\<close>
  block answers, or the \<^verbatim>\<open>catch\<close> does.\<close>

lemma post_mcp_dispatch:
  assumes "get_prop body ''method'' = Inr method"
    and "get_prop body ''id'' = Inr rid"
    and "get_prop body ''params'' = Inr params"
  shows "post_mcp h body =
     (case post_try h method rid params of
        Inr r \<Rightarrow> Responded r
      | Inl err \<Rightarrow>
          Responded (json_response 500
            (rpc_error rid internal_error_code
               (if message h err \<noteq> [] then message h err else ''Internal error''))))"
  using assms by (simp add: post_mcp_def)

lemma post_mcp_tools_call:
  assumes "get_prop body ''method'' = Inr (JStr ''tools/call'')"
    and "get_prop body ''id'' = Inr rid"
    and "get_prop body ''params'' = Inr params"
    and "opt_chain params ''arguments'' = Inr arguments"
    and "opt_chain arguments ''query'' = Inr query"
  shows "post_mcp h body =
     (case callTool h query of
        Inr result \<Rightarrow> Responded (json_response 200 (rpc_result rid result))
      | Inl err \<Rightarrow>
          Responded (json_response 500
            (rpc_error rid internal_error_code
               (if message h err \<noteq> [] then message h err else ''Internal error''))))"
  using assms by (simp add: post_mcp_dispatch post_try_def split: sum.splits)

section \<open>The program's primitives in the words of the specification\<close>

lemma own_prop_member: "own_prop kvs k = member (JObj kvs) k"
  by (simp add: own_prop_def)

lemma get_prop_member:
  "v \<noteq> JNull \<Longrightarrow> v \<noteq> JUndefined \<Longrightarrow> k \<noteq> ''length'' \<Longrightarrow> get_prop v k = Inr (member v k)"
  by (cases v) (simp_all add: own_prop_member)

lemma opt_chain_member:
  "k \<noteq> ''length'' \<Longrightarrow> opt_chain v k = Inr (member v k)"
  by (cases v) (simp_all add: opt_chain_def own_prop_member)

lemma truthy_is_set: "truthy v = is_set v"
  by (cases v) simp_all

lemma toString_js_rendered: "primitive v \<Longrightarrow> toString_js v = Inr (rendered v)"
  by (cases v) simp_all

lemma digit_char_decimal: "d < 10 \<Longrightarrow> digit_char d = ''0123456789'' ! d"
proof -
  have "\<forall>d \<in> set [0..<10]. digit_char d = ''0123456789'' ! d"
    by code_simp
  then show "d < 10 \<Longrightarrow> digit_char d = ''0123456789'' ! d"
    by simp
qed

lemma show_nat_decimal: "show_nat n = decimal n"
proof (induction n rule: show_nat.induct)
  case (1 n)
  show ?case
  proof (cases "n < 10")
    case True
    then show ?thesis
      by (simp add: show_nat.simps [of n] decimal.simps [of n] digit_char_decimal)
  next
    case False
    then have "show_nat (n div 10) = decimal (n div 10)"
      using "1.IH" by simp
    then show ?thesis
      using False
      by (simp add: show_nat.simps [of n] decimal.simps [of n] digit_char_decimal)
  qed
qed

lemma decimal_digits: "c \<in> set (decimal n) \<Longrightarrow> is_digit c"
proof (induction n rule: decimal.induct)
  case (1 n)
  have nth: "\<And>d. d < 10 \<Longrightarrow> is_digit (''0123456789'' ! d)"
    unfolding is_digit_def by (rule nth_mem) simp
  show ?case
  proof (cases "n < 10")
    case True
    with "1.prems" show ?thesis
      by (simp add: decimal.simps [of n] nth)
  next
    case False
    with "1.prems" "1.IH" show ?thesis
      by (auto simp add: decimal.simps [of n] nth)
  qed
qed

lemma decimal_not_Nil: "decimal n \<noteq> []"
  by (simp add: decimal.simps [of n])

lemma decimal_zero_iff: "decimal n = ''0'' \<longleftrightarrow> n = 0"
proof
  assume d: "decimal n = ''0''"
  show "n = 0"
  proof (cases "n < 10")
    case True
    have "\<forall>d \<in> set [0..<10]. ''0123456789'' ! d = CHR ''0'' \<longrightarrow> d = 0"
      by code_simp
    with True d show ?thesis
      by (simp add: decimal.simps [of n])
  next
    case False
    with d decimal_not_Nil [of "n div 10"] show ?thesis
      by (simp add: decimal.simps [of n] append_eq_Cons_conv)
  qed
next
  assume "n = 0"
  then show "decimal n = ''0''"
    by (simp add: decimal.simps [of 0])
qed

lemma truthy_length: "truthy (JNum (show_nat n)) = (n \<noteq> 0)"
proof -
  have "decimal n \<noteq> ''NaN''"
  proof
    assume "decimal n = ''NaN''"
    then have "CHR ''N'' \<in> set (decimal n)" by simp
    then have "is_digit CHR ''N''" by (rule decimal_digits)
    then show False by (simp add: is_digit_def)
  qed
  then show ?thesis
    by (simp add: show_nat_decimal decimal_zero_iff)
qed

lemma unpaired_surrogate_well_formed: "unpaired_surrogate s = (\<not> well_formed_text s)"
  by (induction s rule: unpaired_surrogate.induct) (auto simp add: well_formed_text_def)

lemma encodeURIComponent_well_formed:
  "well_formed_text s \<Longrightarrow> encodeURIComponent s = Inr (percent_encode s)"
  by (simp add: encodeURIComponent_def unpaired_surrogate_well_formed)

section \<open>The protocol bridge over POST\<close>

text \<open>
  C9. An \<^verbatim>\<open>initialize\<close> request is answered with status 200 and, under the request's
  id, the fixed result: the protocol version \<^verbatim>\<open>2025-06-18\<close>, the tools capability
  and the server's name and version. Nothing in the answer comes from the parameters of
  the request: the protocol version that the client asks for, or leaves out, is not read.
\<close>

theorem initialize_ignores_client_version:
  assumes "get_prop body ''method'' = Inr (JStr ''initialize'')"
    and "get_prop body ''id'' = Inr rid"
  shows "post_mcp h body =
           Responded \<lparr>status = 200, content_type = ''application/json'',
                      payload = JObj [(''jsonrpc'', JStr ''2.0''), (''id'', rid),
                                      (''result'', JObj [
                                         (''protocolVersion'', JStr ''2025-06-18''),
                                         (''capabilities'', JObj [(''tools'', JObj [])]),
                                         (''serverInfo'', JObj [(''name'', JStr ''radiofm-mcp-server''),
                                                               (''version'', JStr ''1.3.0'')])])]\<rparr>"
proof -
  obtain params where "get_prop body ''params'' = Inr params"
    using get_prop_other [OF assms(1)] by blast
  then show ?thesis
    using assms
    by (simp add: post_mcp_dispatch post_try_def json_response_def rpc_result_def initialize_result_def)
qed

theorem initialize_ignores_client_version_witness:
  "post_mcp offline_host
     (JObj [(''jsonrpc'', JStr ''2.0''), (''id'', JNum ''1''), (''method'', JStr ''initialize''),
            (''params'', JObj [(''protocolVersion'', JStr ''2024-11-05'')])])
   = Responded \<lparr>status = 200, content_type = ''application/json'',
                      payload = JObj [(''jsonrpc'', JStr ''2.0''), (''id'', JNum ''1''),
                                      (''result'', JObj [
                                         (''protocolVersion'', JStr ''2025-06-18''),
                                         (''capabilities'', JObj [(''tools'', JObj [])]),
                                         (''serverInfo'', JObj [(''name'', JStr ''radiofm-mcp-server''),
                                                               (''version'', JStr ''1.3.0'')])])]\<rparr>
   \<and> post_mcp offline_host
     (JObj [(''jsonrpc'', JStr ''2.0''), (''id'', JNum ''1''), (''method'', JStr ''initialize'')])
   = Responded \<lparr>status = 200, content_type = ''application/json'',
                      payload = JObj [(''jsonrpc'', JStr ''2.0''), (''id'', JNum ''1''),
                                      (''result'', JObj [
                                         (''protocolVersion'', JStr ''2025-06-18''),
                                         (''capabilities'', JObj [(''tools'', JObj [])]),
                                         (''serverInfo'', JObj [(''name'', JStr ''radiofm-mcp-server''),
                                                               (''version'', JStr ''1.3.0'')])])]\<rparr>"
  using initialize_ignores_client_version [of
      "JObj [(''jsonrpc'', JStr ''2.0''), (''id'', JNum ''1''), (''method'', JStr ''initialize''),
            (''params'', JObj [(''protocolVersion'', JStr ''2024-11-05'')])]" "JNum ''1''" offline_host]
    initialize_ignores_client_version [of
      "JObj [(''jsonrpc'', JStr ''2.0''), (''id'', JNum ''1''), (''method'', JStr ''initialize'')]"
      "JNum ''1''" offline_host]
  by (simp add: own_prop_def)

text \<open>
  C8. A request whose method is none of \<^verbatim>\<open>initialize\<close>, \<^verbatim>\<open>tools/list\<close> and
  \<^verbatim>\<open>tools/call\<close> is answered with status 400 and a JSON-RPC error of code -32601 under
  the request's id, and the handler returns: the listener goes on with the next request.
  The method is any value that a template literal can print (every string, and the absent
  method, which prints as \<^verbatim>\<open>undefined\<close>).
\<close>

theorem unknown_method_is_rejected:
  assumes "get_prop body ''method'' = Inr method"
    and "method \<noteq> JStr ''initialize''"
    and "method \<noteq> JStr ''tools/list''"
    and "method \<noteq> JStr ''tools/call''"
    and "toString_js method = Inr m"
    and "get_prop body ''id'' = Inr rid"
  shows "post_mcp h body =
           Responded \<lparr>status = 400, content_type = ''application/json'',
                      payload = JObj [(''jsonrpc'', JStr ''2.0''), (''id'', rid),
                                      (''error'', JObj [(''code'', JNum ''-32601''),
                                                       (''message'', JStr (''Unknown method: '' @ m))])]\<rparr>
       \<and> serve h (body # rest) = post_mcp h body # serve h rest"
proof -
  obtain params where "get_prop body ''params'' = Inr params"
    using get_prop_other [OF assms(1)] by blast
  then have "post_mcp h body =
           Responded \<lparr>status = 400, content_type = ''application/json'',
                      payload = JObj [(''jsonrpc'', JStr ''2.0''), (''id'', rid),
                                      (''error'', JObj [(''code'', JNum ''-32601''),
                                                       (''message'', JStr (''Unknown method: '' @ m))])]\<rparr>"
    using assms by (simp add: post_mcp_dispatch post_try_def json_response_def rpc_error_def)
  then show ?thesis by simp
qed

theorem unknown_method_is_rejected_witness:
  "post_mcp offline_host
     (JObj [(''jsonrpc'', JStr ''2.0''), (''id'', JNum ''7''), (''method'', JStr ''resources/list'')]) =
           Responded \<lparr>status = 400, content_type = ''application/json'',
                      payload = JObj [(''jsonrpc'', JStr ''2.0''), (''id'', JNum ''7''),
                                      (''error'', JObj [(''code'', JNum ''-32601''),
                                                       (''message'', JStr ''Unknown method: resources/list'')])]\<rparr>"
  using unknown_method_is_rejected [of
     "JObj [(''jsonrpc'', JStr ''2.0''), (''id'', JNum ''7''), (''method'', JStr ''resources/list'')]"
     "JStr ''resources/list''" "''resources/list''" "JNum ''7''" offline_host "[]"]
  by (simp add: own_prop_def)

text \<open>
  C3, as the code has it. A \<^verbatim>\<open>tools/call\<close> request whose \<^verbatim>\<open>arguments.query\<close> is
  absent or the empty string is answered, not left as an escaped exception: with status
  500 and a JSON-RPC error whose message is \<^verbatim>\<open>Missing query term.\<close> and whose code
  is -32000, the code of the \<^verbatim>\<open>catch\<close> block for every exception. The program has no
  error code of its own for an invalid argument.
\<close>

theorem missing_query_is_internal_error:
  assumes "get_prop body ''method'' = Inr (JStr ''tools/call'')"
    and "get_prop body ''id'' = Inr rid"
    and "get_prop body ''params'' = Inr params"
    and "opt_chain params ''arguments'' = Inr arguments"
    and "opt_chain arguments ''query'' = Inr query"
    and "query = JUndefined \<or> query = JStr []"
  shows "post_mcp h body =
           Responded \<lparr>status = 500, content_type = ''application/json'',
                      payload = JObj [(''jsonrpc'', JStr ''2.0''), (''id'', rid),
                                      (''error'', JObj [(''code'', JNum ''-32000''),
                                                       (''message'', JStr ''Missing query term.'')])]\<rparr>"
proof -
  have "callTool h query = Inl (Error ''Missing query term.'')"
    using assms(6) by (auto simp add: callTool_def)
  then show ?thesis
    using post_mcp_tools_call [OF assms(1-5), of h]
    by (simp add: json_response_def rpc_error_def internal_error_code_def)
qed

theorem missing_query_is_internal_error_witness:
  "post_mcp offline_host
     (call_request (JNum ''3'') (JObj [(''name'', JStr ''search_radio_stations''), (''arguments'', JObj [])])) =
           Responded \<lparr>status = 500, content_type = ''application/json'',
                      payload = JObj [(''jsonrpc'', JStr ''2.0''), (''id'', JNum ''3''),
                                      (''error'', JObj [(''code'', JNum ''-32000''),
                                                       (''message'', JStr ''Missing query term.'')])]\<rparr>"
  using missing_query_is_internal_error [of
     "call_request (JNum ''3'') (JObj [(''name'', JStr ''search_radio_stations''), (''arguments'', JObj [])])"
     "JNum ''3''" "JObj [(''name'', JStr ''search_radio_stations''), (''arguments'', JObj [])]"
     "JObj []" JUndefined offline_host]
  by (simp add: call_request_def own_prop_def opt_chain_def)

text \<open>
  C3 as the specification words it fails: for a request without a query the error code
  of the answer is not distinct from the internal-error code, it is that code.
\<close>

theorem missing_query_code_not_distinct:
  "\<not> (error_code_of (post_mcp offline_host
          (call_request (JNum ''3'') (JObj [(''name'', JStr ''search_radio_stations''), (''arguments'', JObj [])])))
       \<noteq> Inr internal_error_code)"
  by (simp add: call_request_def post_mcp_def post_try_def own_prop_def opt_chain_def callTool_def
      error_code_of_def json_response_def rpc_error_def)

text \<open>
  C7, as the code has it. Whatever \<^verbatim>\<open>callTool\<close> throws while a \<^verbatim>\<open>tools/call\<close> request
  is handled, the upstream's failure included, the request is answered with status 500
  and a JSON-RPC error of code -32000 under the request's id. Its message is the message
  of the exception, and the fixed text \<^verbatim>\<open>Internal error\<close> when the exception has an
  empty one. The handler returns, and the listener goes on with the next request.
\<close>

theorem tools_call_exception_is_answered:
  assumes "get_prop body ''method'' = Inr (JStr ''tools/call'')"
    and "get_prop body ''id'' = Inr rid"
    and "get_prop body ''params'' = Inr params"
    and "opt_chain params ''arguments'' = Inr arguments"
    and "opt_chain arguments ''query'' = Inr query"
    and "callTool h query = Inl err"
  shows "post_mcp h body =
           Responded \<lparr>status = 500, content_type = ''application/json'',
                      payload = JObj [(''jsonrpc'', JStr ''2.0''), (''id'', rid),
                                      (''error'', JObj [(''code'', JNum ''-32000''),
                                                       (''message'', JStr (if message h err = [] then ''Internal error''
                                                                          else message h err))])]\<rparr>
       \<and> serve h (body # rest) = post_mcp h body # serve h rest"
proof -
  have "post_mcp h body =
           Responded \<lparr>status = 500, content_type = ''application/json'',
                      payload = JObj [(''jsonrpc'', JStr ''2.0''), (''id'', rid),
                                      (''error'', JObj [(''code'', JNum ''-32000''),
                                                       (''message'', JStr (if message h err = [] then ''Internal error''
                                                                          else message h err))])]\<rparr>"
    using post_mcp_tools_call [OF assms(1-5), of h] assms(6)
    by (simp add: json_response_def rpc_error_def internal_error_code_def)
  then show ?thesis by simp
qed

theorem tools_call_exception_is_answered_witness:
  "post_mcp offline_host
     (call_request (JNum ''4'') (JObj [(''name'', JStr ''search_radio_stations''),
                                   (''arguments'', JObj [(''query'', JStr ''BBC'')])])) =
           Responded \<lparr>status = 500, content_type = ''application/json'',
                      payload = JObj [(''jsonrpc'', JStr ''2.0''), (''id'', JNum ''4''),
                                      (''error'', JObj [(''code'', JNum ''-32000''),
                                                       (''message'', JStr ''Network Error'')])]\<rparr>"
  using tools_call_exception_is_answered [of
     "call_request (JNum ''4'') (JObj [(''name'', JStr ''search_radio_stations''),
                                   (''arguments'', JObj [(''query'', JStr ''BBC'')])])"
     "JNum ''4''" "JObj [(''name'', JStr ''search_radio_stations''), (''arguments'', JObj [(''query'', JStr ''BBC'')])]"
     "JObj [(''query'', JStr ''BBC'')]" "JStr ''BBC''" offline_host "Error ''Network Error''" "[]"]
  by (simp add: call_request_def own_prop_def opt_chain_def callTool_def offline_host_def
      encodeURIComponent_def)

text \<open>
  C7 as the specification words it fails where the exception has an empty message: the
  answer then carries \<^verbatim>\<open>Internal error\<close>, which is not the exception's message.
\<close>

theorem empty_exception_message_is_replaced:
  "callTool silent_host (JStr ''BBC'') = Inl (Error [])
   \<and> error_message_of (post_mcp silent_host
        (call_request (JNum ''4'') (JObj [(''arguments'', JObj [(''query'', JStr ''BBC'')])])))
     = Inr (JStr ''Internal error'')
   \<and> \<not> (error_message_of (post_mcp silent_host
        (call_request (JNum ''4'') (JObj [(''arguments'', JObj [(''query'', JStr ''BBC'')])])))
     = Inr (JStr (message silent_host (Error []))))"
  by (simp add: call_request_def post_mcp_def post_try_def own_prop_def opt_chain_def callTool_def
      error_message_of_def json_response_def rpc_error_def silent_host_def
      encodeURIComponent_def)



section \<open>The result of \<^verbatim>\<open>callTool\<close>\<close>

text \<open>
  For a query without a surrogate that lacks its partner, and an upstream body other
  than \<^verbatim>\<open>null\<close> in which \<^verbatim>\<open>data.Data\<close> is absent (\<^verbatim>\<open>data\<close> or \<^verbatim>\<open>Data\<close> missing
  or \<^verbatim>\<open>null\<close>) or the empty array, \<^verbatim>\<open>callTool\<close> returns a result whose content
  is one entry of type \<^verbatim>\<open>text\<close>: the no-results sentence around the query as it was
  given.
\<close>

theorem no_results_text_when_Data_absent_or_empty:
  assumes "q \<noteq> []"
    and "well_formed_text q"
    and "axios_get h (''https://devappradiofm.radiofm.co/rfm/api/new_combo_search.php?srch=''
           @ percent_encode q) = Inr body"
    and "body \<noteq> JNull"
    and "body \<noteq> JUndefined"
    and "member (member body ''data'') ''Data'' = JUndefined
         \<or> member (member body ''data'') ''Data'' = JNull
         \<or> member (member body ''data'') ''Data'' = JArr []"
  shows "callTool h (JStr q) =
           Inr (JObj [(''content'', JArr [JObj [(''type'', JStr ''text''),
                  (''text'', JStr ([CHR 0xF0, CHR 0x9F, CHR 0x94, CHR 0x8D]
                     @ '' No results found for '' @ [CHR 0x22] @ q @ [CHR 0x22]
                     @ ''. Try different station names, countries, or genres.''))]])])"
proof -
  have data: "get_prop body ''data'' = Inr (member body ''data'')"
    using assms(4,5) by (simp add: get_prop_member)
  have Data: "opt_chain (member body ''data'') ''Data'' = Inr (member (member body ''data'') ''Data'')"
    by (simp add: opt_chain_member)
  have len: "\<exists>n. get_prop (coalesce (member (member body ''data'') ''Data'') (JArr [])) ''length''
               = Inr n \<and> \<not> truthy n"
    using assms(6) by (auto simp add: coalesce_def show_nat_decimal decimal.simps [of 0])
  then obtain n where n: "get_prop (coalesce (member (member body ''data'') ''Data'') (JArr [])) ''length''
               = Inr n" "\<not> truthy n"
    by blast
  show ?thesis
    using assms(1,3) n
    by (simp add: callTool_def encodeURIComponent_well_formed [OF assms(2)] RADIOFM_API_def
        data Data tool_result_def magnifier_def dquote_def)
qed

theorem no_results_text_when_Data_absent_or_empty_witness:
  "callTool (answering (JObj [])) (JStr ''zzz'') =
           Inr (JObj [(''content'', JArr [JObj [(''type'', JStr ''text''),
                  (''text'', JStr ([CHR 0xF0, CHR 0x9F, CHR 0x94, CHR 0x8D]
                     @ '' No results found for '' @ [CHR 0x22] @ ''zzz'' @ [CHR 0x22]
                     @ ''. Try different station names, countries, or genres.''))]])])
   \<and> callTool (answering (JObj [(''data'', JNull)])) (JStr ''zzz'')
       = callTool (answering (JObj [])) (JStr ''zzz'')
   \<and> callTool (answering (JObj [(''data'', JObj [(''Data'', JArr [])])])) (JStr ''zzz'')
       = callTool (answering (JObj [])) (JStr ''zzz'')"
  using no_results_text_when_Data_absent_or_empty [of "''zzz''" "answering (JObj [])" "JObj []"]
    no_results_text_when_Data_absent_or_empty [of "''zzz''" "answering (JObj [(''data'', JNull)])"
       "JObj [(''data'', JNull)]"]
    no_results_text_when_Data_absent_or_empty [of "''zzz''"
       "answering (JObj [(''data'', JObj [(''Data'', JArr [])])])"
       "JObj [(''data'', JObj [(''Data'', JArr [])])]"]
  by (simp add: answering_def well_formed_text_def)

text \<open>
  C6 at an upstream body that is \<^verbatim>\<open>null\<close>, in which \<^verbatim>\<open>data.Data\<close> is absent: for
  the query \<^verbatim>\<open>zzz\<close> the read \<^verbatim>\<open>data.data\<close> throws, and the request is answered
  with status 500 and the error code -32000 instead of the no-results text.
\<close>

theorem null_body_is_not_answered_with_no_results:
  "callTool (answering JNull) (JStr ''zzz'') = Inl (TypeError (ReadOfNullish JNull ''data''))
   \<and> post_mcp (answering JNull)
        (call_request (JNum ''6'') (JObj [(''arguments'', JObj [(''query'', JStr ''zzz'')])]))
     = Responded \<lparr>status = 500, content_type = ''application/json'',
                  payload = JObj [(''jsonrpc'', JStr ''2.0''), (''id'', JNum ''6''),
                                  (''error'', JObj [(''code'', JNum ''-32000''),
                                                   (''message'', JStr ''type error'')])]\<rparr>"
  by (simp add: callTool_def answering_def encodeURIComponent_def call_request_def post_mcp_def
      post_try_def own_prop_def opt_chain_def json_response_def rpc_error_def internal_error_code_def)

text \<open>
  C1 at a group whose \<^verbatim>\<open>type\<close> is absent and at one whose \<^verbatim>\<open>type\<close> is a number:
  for the query \<^verbatim>\<open>BBC\<close> and the upstream answers
  \<^verbatim>\<open>{"data":{"Data":[{"data":[{"st_name":"BBC Radio 1"}]}]}}\<close> and
  \<^verbatim>\<open>{"data":{"Data":[{"type":7,"data":[]}]}}\<close> the formatting throws at
  \<^verbatim>\<open>group.type.toUpperCase()\<close> instead of returning a text.
\<close>

theorem formatting_throws_on_group_without_type:
  "callTool (answering (JObj [(''data'', JObj [(''Data'', JArr [
       JObj [(''data'', JArr [JObj [(''st_name'', JStr ''BBC Radio 1'')]])]])])])) (JStr ''BBC'')
   = Inl (TypeError (ReadOfNullish JUndefined ''toUpperCase''))
   \<and> callTool (answering (JObj [(''data'', JObj [(''Data'', JArr [
       JObj [(''type'', JNum ''7''), (''data'', JArr [])]])])])) (JStr ''BBC'')
   = Inl (TypeError (NotAFunction ''group.type.toUpperCase''))"
  by (simp add: callTool_def answering_def own_prop_def opt_chain_def coalesce_def format_group_def
      encodeURIComponent_def show_nat_one)

section \<open>The line of an item\<close>

lemma format_item_text:
  assumes "item \<noteq> JNull" and "item \<noteq> JUndefined"
    and "list_all (\<lambda>k. primitive (member item k)) item_members"
  shows "format_item item i = Inr (entry_line (i + 1) item @ [CHR 0x0A] @ link_line item)"
proof -
  have get: "\<And>k. k \<noteq> ''length'' \<Longrightarrow> get_prop item k = Inr (member item k)"
    using assms(1,2) by (simp add: get_prop_member)
  have prim: "primitive (member item ''st_name'')" "primitive (member item ''p_name'')"
    "primitive (member item ''st_genre'')" "primitive (member item ''cat_name'')"
    "primitive (member item ''deeplink'')" "primitive (member item ''st_shorturl'')"
    using assms(3) by (simp_all add: item_members_def)
  have name: "item_name item = Inr (chosen (member item ''st_name'') (member item ''p_name''))"
    by (simp add: item_name_def get truthy_is_set chosen_def)
  have genre: "item_genre item = Inr (chosen (member item ''st_genre'') (member item ''cat_name''))"
    by (simp add: item_genre_def get truthy_is_set chosen_def)
  define built where
    "built = JStr (''https://appradiofm.com/radioplay/'' @ rendered (member item ''st_shorturl''))"
  have link: "item_link item = Inr (chosen (member item ''deeplink'') built)"
    by (simp add: item_link_def get truthy_is_set chosen_def built_def
        toString_js_rendered [OF prim(6)])
  have name_text: "toString_js (chosen (member item ''st_name'') (member item ''p_name''))
      = Inr (rendered (chosen (member item ''st_name'') (member item ''p_name'')))"
    using prim(1,2) by (simp add: chosen_def toString_js_rendered)
  have genre_text: "toString_js (chosen (member item ''st_genre'') (member item ''cat_name''))
      = Inr (rendered (chosen (member item ''st_genre'') (member item ''cat_name'')))"
    using prim(3,4) by (simp add: chosen_def toString_js_rendered)
  have "primitive built"
    by (simp add: built_def)
  then have link_text: "toString_js (chosen (member item ''deeplink'') built)
      = Inr (rendered (chosen (member item ''deeplink'') built))"
    using prim(5) by (simp add: chosen_def toString_js_rendered)
  have "format_item item i =
      Inr (show_nat (i + 1) @ ''. ''
           @ rendered (chosen (member item ''st_name'') (member item ''p_name''))
           @ '' ('' @ rendered (chosen (member item ''st_genre'') (member item ''cat_name''))
           @ '')'' @ newline @ play_mark @ '' ''
           @ rendered (chosen (member item ''deeplink'') built))"
    by (simp add: format_item_def name genre link name_text genre_text link_text)
  then show ?thesis
    by (simp add: entry_line_def link_line_def show_nat_decimal newline_def play_mark_def built_def)
qed

text \<open>
  C2, as the code has it. For every item but \<^verbatim>\<open>null\<close> whose six members are absent or
  primitive: the display name is \<^verbatim>\<open>st_name\<close> if that is set (not absent, \<^verbatim>\<open>null\<close>,
  \<^verbatim>\<open>false\<close>, zero or the empty string), else \<^verbatim>\<open>p_name\<close>; the category is
  \<^verbatim>\<open>st_genre\<close> if that is set, else \<^verbatim>\<open>cat_name\<close>; the link is \<^verbatim>\<open>deeplink\<close> if
  that is set, else the fixed base followed by \<^verbatim>\<open>st_shorturl\<close>. What is chosen is
  printed as a template literal prints it: a string as it is, a number and a boolean as
  they are written, \<^verbatim>\<open>null\<close> as the word \<^verbatim>\<open>null\<close> and an absent member as the word
  \<^verbatim>\<open>undefined\<close>. The line of the item is its number, the name, the category in
  brackets, and on the next line the play mark and the link.
\<close>

theorem item_line_components:
  assumes "item \<noteq> JNull" and "item \<noteq> JUndefined"
    and "list_all (\<lambda>k. primitive (member item k))
           [''st_name'', ''p_name'', ''st_genre'', ''cat_name'', ''deeplink'', ''st_shorturl'']"
  shows "format_item item i =
           Inr (decimal (i + 1) @ ''. ''
                @ rendered (chosen (member item ''st_name'') (member item ''p_name''))
                @ '' (''
                @ rendered (chosen (member item ''st_genre'') (member item ''cat_name''))
                @ '')'' @ [CHR 0x0A] @ [CHR 0xE2, CHR 0x96, CHR 0xB6] @ '' ''
                @ rendered (chosen (member item ''deeplink'')
                    (JStr (''https://appradiofm.com/radioplay/''
                           @ rendered (member item ''st_shorturl'')))))"
  using format_item_text [of item i] assms
  by (simp add: item_members_def entry_line_def link_line_def)

lemma decimal_one: "decimal (Suc 0) = ''1''"
  by code_simp

theorem item_line_components_witness:
  "format_item (JObj [(''st_name'', JStr ''BBC Radio 1''), (''st_genre'', JStr ''Pop''),
                      (''st_shorturl'', JStr ''bbc1'')]) 0
   = Inr (''1. BBC Radio 1 (Pop)'' @ [CHR 0x0A] @ [CHR 0xE2, CHR 0x96, CHR 0xB6]
          @ '' https://appradiofm.com/radioplay/bbc1'')
   \<and> format_item (JObj [(''st_name'', JNull), (''p_name'', JStr ''Newscast''),
                        (''st_genre'', JNum ''5''), (''cat_name'', JStr ''News''),
                        (''deeplink'', JStr ''rfm://newscast'')]) 0
   = Inr (''1. Newscast (5)'' @ [CHR 0x0A] @ [CHR 0xE2, CHR 0x96, CHR 0xB6] @ '' rfm://newscast'')"
  using item_line_components [of
     "JObj [(''st_name'', JStr ''BBC Radio 1''), (''st_genre'', JStr ''Pop''),
            (''st_shorturl'', JStr ''bbc1'')]" 0]
    item_line_components [of
     "JObj [(''st_name'', JNull), (''p_name'', JStr ''Newscast''),
            (''st_genre'', JNum ''5''), (''cat_name'', JStr ''News''),
            (''deeplink'', JStr ''rfm://newscast'')]" 0]
  by (simp add: chosen_def decimal_one)

text \<open>
  C2 as the specification words it fails twice. An item without any of the six members
  is printed with the word \<^verbatim>\<open>undefined\<close> for its name and its category and at the
  end of its link, not with empty strings. An item whose \<^verbatim>\<open>st_name\<close> is there and
  empty is printed with its \<^verbatim>\<open>p_name\<close>.
\<close>

theorem absent_members_print_undefined:
  "format_item (JObj []) 0
     = Inr (''1. undefined (undefined)'' @ [CHR 0x0A] @ [CHR 0xE2, CHR 0x96, CHR 0xB6]
            @ '' https://appradiofm.com/radioplay/undefined'')
   \<and> format_item (JObj []) 0
     \<noteq> Inr (''1.  ()'' @ [CHR 0x0A] @ [CHR 0xE2, CHR 0x96, CHR 0xB6] @ '' '')
   \<and> format_item (JObj [(''st_name'', JStr []), (''p_name'', JStr ''Newscast''),
                        (''cat_name'', JStr ''News''), (''deeplink'', JStr ''rfm://newscast'')]) 0
     = Inr (''1. Newscast (News)'' @ [CHR 0x0A] @ [CHR 0xE2, CHR 0x96, CHR 0xB6]
            @ '' rfm://newscast'')"
  by (simp add: format_item_def item_name_def item_genre_def item_link_def own_prop_def
      show_nat_one newline_def play_mark_def)

section \<open>Lines of a text\<close>

lemma lines_of_one_line: "one_line s \<Longrightarrow> lines_of s = [s]"
  by (induction s) (auto simp add: one_line_def)

lemma lines_of_break: "one_line a \<Longrightarrow> lines_of (a @ CHR 0x0A # b) = a # lines_of b"
  by (induction a) (auto simp add: one_line_def)

lemma join_str_Cons: "ls \<noteq> [] \<Longrightarrow> join_str sep (x # ls) = x @ sep @ join_str sep ls"
  by (cases ls) simp_all

lemma join_str_append:
  "xs \<noteq> [] \<Longrightarrow> ys \<noteq> [] \<Longrightarrow> join_str sep (xs @ ys) = join_str sep xs @ sep @ join_str sep ys"
proof (induction xs)
  case Nil
  then show ?case by simp
next
  case (Cons x xs)
  show ?case
  proof (cases "xs = []")
    case True
    then show ?thesis using Cons.prems by (simp add: join_str_Cons)
  next
    case False
    then show ?thesis using Cons by (simp add: join_str_Cons)
  qed
qed

lemma lines_of_join:
  "ls \<noteq> [] \<Longrightarrow> list_all one_line ls \<Longrightarrow> lines_of (join_str newline ls) = ls"
proof (induction ls)
  case Nil
  then show ?case by simp
next
  case (Cons x ls)
  show ?case
  proof (cases "ls = []")
    case True
    then show ?thesis using Cons.prems by (simp add: lines_of_one_line)
  next
    case False
    then show ?thesis
      using Cons by (simp add: join_str_Cons newline_def lines_of_break)
  qed
qed

lemma decimal_one_line: "one_line (decimal k)"
proof -
  have "\<not> is_digit (CHR 0x0A)" by (simp add: is_digit_def)
  then show ?thesis
    unfolding one_line_def using decimal_digits by blast
qed

lemma not_header_Nil: "\<not> is_header_line []"
  by (simp add: is_header_line_def)

lemma not_entry_Nil: "\<not> is_entry_line []"
  by (simp add: is_entry_line_def)

lemma not_entry_if_no_digit: "\<not> is_digit c \<Longrightarrow> \<not> is_entry_line (c # cs)"
  by (simp add: is_entry_line_def)

lemma not_header_if_other: "c \<noteq> CHR 0xF0 \<Longrightarrow> \<not> is_header_line (c # cs)"
  by (simp add: is_header_line_def)

lemma header_line_is_header: "is_header_line (header_line h g)"
  by (simp add: is_header_line_def header_line_def)

lemma header_line_no_entry: "\<not> is_entry_line (header_line h g)"
  by (simp add: header_line_def not_entry_if_no_digit is_digit_def)

lemma link_line_no_entry: "\<not> is_entry_line (link_line item)"
  by (simp add: link_line_def not_entry_if_no_digit is_digit_def)

lemma link_line_no_header: "\<not> is_header_line (link_line item)"
  by (simp add: link_line_def not_header_if_other)

lemma entry_line_is_entry: "is_entry_line (entry_line k item)"
proof -
  have all: "\<forall>c \<in> set (decimal k). is_digit c"
    using decimal_digits by blast
  have stop: "\<not> is_digit (CHR ''.'')"
    by (simp add: is_digit_def)
  have "takeWhile is_digit (decimal k @ ''. '' @ r) = decimal k" for r
    using all stop by simp
  moreover have "dropWhile is_digit (decimal k @ ''. '' @ r) = ''. '' @ r" for r
    using all stop by simp
  ultimately show ?thesis
    by (simp add: is_entry_line_def entry_line_def decimal_not_Nil)
qed

lemma entry_line_no_header: "\<not> is_header_line (entry_line k item)"
proof -
  obtain c cs where d: "decimal k = c # cs"
    using decimal_not_Nil [of k] by (cases "decimal k") auto
  then have "is_digit c"
    using decimal_digits [of c k] by simp
  then have "c \<noteq> CHR 0xF0"
    by (auto simp add: is_digit_def)
  then show ?thesis
    by (simp add: entry_line_def d not_header_if_other)
qed

lemma entry_lines_headers: "filter is_header_line (entry_lines k items) = []"
  by (induction items arbitrary: k) (simp_all add: entry_line_no_header link_line_no_header)

lemma entry_lines_entries:
  "filter is_entry_line (entry_lines k items)
     = map (\<lambda>(n, item). entry_line n item) (enumerate k items)"
  by (induction items arbitrary: k) (simp_all add: entry_line_is_entry link_line_no_entry)

lemma block_lines_headers: "filter is_header_line (block_lines h g) = [header_line h g]"
  by (simp add: block_lines_def not_header_Nil header_line_is_header entry_lines_headers)

lemma block_lines_entries:
  "filter is_entry_line (block_lines h g)
     = map (\<lambda>(n, item). entry_line n item) (enumerate 1 (group_items g))"
  by (simp add: block_lines_def not_entry_Nil header_line_no_entry entry_lines_entries)

section \<open>The blocks of the groups\<close>

lemma is_item_members:
  assumes "is_item item"
  shows "item \<noteq> JNull" and "item \<noteq> JUndefined"
    and "list_all (\<lambda>k. primitive (member item k)) item_members"
    and "\<And>k. k \<in> set item_members \<Longrightarrow> one_line (rendered (member item k))"
  using assms by (simp_all add: is_item_def list_all_iff)

lemma chosen_one_line:
  "one_line (rendered a) \<Longrightarrow> one_line (rendered b) \<Longrightarrow> one_line (rendered (chosen a b))"
  by (simp add: chosen_def)

lemma entry_line_one_line: "is_item item \<Longrightarrow> one_line (entry_line k item)"
proof -
  assume item: "is_item item"
  have "one_line (rendered (chosen (member item ''st_name'') (member item ''p_name'')))"
    by (intro chosen_one_line is_item_members(4) [OF item]) (simp_all add: item_members_def)
  moreover have "one_line (rendered (chosen (member item ''st_genre'') (member item ''cat_name'')))"
    by (intro chosen_one_line is_item_members(4) [OF item]) (simp_all add: item_members_def)
  ultimately show ?thesis
    using decimal_one_line [of k] by (simp add: entry_line_def one_line_def)
qed

lemma link_line_one_line: "is_item item \<Longrightarrow> one_line (link_line item)"
proof -
  assume item: "is_item item"
  have d: "one_line (rendered (member item ''deeplink''))"
    and u: "one_line (rendered (member item ''st_shorturl''))"
    by (intro is_item_members(4) [OF item]; simp add: item_members_def)+
  have "one_line (rendered (JStr (''https://appradiofm.com/radioplay/''
                                   @ rendered (member item ''st_shorturl''))))"
    using u by (simp add: one_line_def)
  from chosen_one_line [OF d this] show ?thesis
    by (simp add: link_line_def one_line_def)
qed

lemma entry_lines_one_line:
  "list_all is_item items \<Longrightarrow> list_all one_line (entry_lines k items)"
  by (induction items arbitrary: k) (simp_all add: entry_line_one_line link_line_one_line)

lemma entries_of_items:
  assumes "list_all is_item items"
  shows "\<exists>es. map_js format_item i items = Inr es \<and> length es = length items
           \<and> (items \<noteq> [] \<longrightarrow> join_str newline es = join_str newline (entry_lines (i + 1) items))"
  using assms
proof (induction items arbitrary: i)
  case Nil
  then show ?case by simp
next
  case (Cons item items)
  then have item: "is_item item" and items: "list_all is_item items"
    by simp_all
  have e: "format_item item i = Inr (entry_line (i + 1) item @ [CHR 0x0A] @ link_line item)"
    by (rule format_item_text) (rule is_item_members [OF item])+
  from Cons.IH [OF items, of "Suc i"] obtain es where es: "map_js format_item (Suc i) items = Inr es"
    and len: "length es = length items"
    and join: "items \<noteq> [] \<Longrightarrow> join_str newline es = join_str newline (entry_lines (Suc i + 1) items)"
    by blast
  have m: "map_js format_item i (item # items)
      = Inr ((entry_line (i + 1) item @ [CHR 0x0A] @ link_line item) # es)"
    by (simp add: e es)
  have "join_str newline ((entry_line (i + 1) item @ [CHR 0x0A] @ link_line item) # es)
      = join_str newline (entry_lines (i + 1) (item # items))"
  proof (cases "items = []")
    case True
    then show ?thesis using len by (simp add: newline_def)
  next
    case False
    then have "es \<noteq> []" using len by auto
    moreover have "entry_lines (Suc (Suc i)) items \<noteq> []"
      using False by (cases items) simp_all
    ultimately show ?thesis
      using join [OF False] by (simp add: join_str_Cons newline_def)
  qed
  then show ?case
    using m len by simp
qed

lemma block_of_group:
  assumes "is_group h g"
  shows "format_group h g k = Inr (join_str newline (block_lines h g))"
proof -
  from assms obtain t where t: "member g ''type'' = JStr t"
    by (auto simp add: is_group_def split: jsval.splits)
  then have g: "g \<noteq> JNull" "g \<noteq> JUndefined"
    by auto
  have data: "(if truthy (member g ''data'') then member g ''data'' else JArr [])
      = JArr (group_items g)"
    using assms
    by (cases "member g ''data''") (simp_all add: is_group_def group_items_def truthy_is_set)
  have items: "list_all is_item (group_items g)"
    using assms
    by (cases "member g ''data''") (simp_all add: is_group_def group_items_def)
  from entries_of_items [OF items, of 0] obtain es
    where es: "map_js format_item 0 (group_items g) = Inr es"
      and len: "length es = length (group_items g)"
      and join: "group_items g \<noteq> [] \<Longrightarrow>
                  join_str newline es = join_str newline (entry_lines 1 (group_items g))"
    by auto
  have tail: "join_str newline es
      = join_str newline (if group_items g = [] then [[]] else entry_lines 1 (group_items g))"
    using len join by (cases "group_items g = []") simp_all
  have nonempty: "(if group_items g = [] then [[]] else entry_lines 1 (group_items g)) \<noteq> []"
    by (cases "group_items g") simp_all
  have "format_group h g k
      = Inr (newline @ headphone @ '' '' @ toUpperCase h t @ newline @ join_str newline es)"
    by (simp add: format_group_def get_prop_member g t data es)
  also have "newline @ headphone @ '' '' @ toUpperCase h t @ newline @ join_str newline es
      = join_str newline (block_lines h g)"
    using nonempty
    by (simp add: block_lines_def join_str_Cons tail header_line_def group_label_def t
        headphone_def del: join_str.simps)
  finally show ?thesis .
qed

lemma block_lines_one_line: "is_group h g \<Longrightarrow> list_all one_line (block_lines h g)"
proof -
  assume g: "is_group h g"
  then have "one_line (header_line h g)"
    by (auto simp add: is_group_def header_line_def group_label_def one_line_def
        split: jsval.splits)
  moreover have "list_all is_item (group_items g)"
    using g by (cases "member g ''data''") (simp_all add: is_group_def group_items_def)
  ultimately show ?thesis
    by (simp add: block_lines_def entry_lines_one_line one_line_def)
qed

lemma blocks_of_groups:
  assumes "list_all (is_group h) groups"
  shows "\<exists>bs. map_js (format_group h) i groups = Inr bs
           \<and> (groups \<noteq> [] \<longrightarrow>
                join_str newline bs = join_str newline (concat (map (block_lines h) groups)))"
  using assms
proof (induction groups arbitrary: i)
  case Nil
  then show ?case by simp
next
  case (Cons g groups)
  then have g: "is_group h g" and groups: "list_all (is_group h) groups"
    by simp_all
  from Cons.IH [OF groups, of "Suc i"] obtain bs
    where bs: "map_js (format_group h) (Suc i) groups = Inr bs"
      and join: "groups \<noteq> [] \<Longrightarrow>
                  join_str newline bs = join_str newline (concat (map (block_lines h) groups))"
    by blast
  have m: "map_js (format_group h) i (g # groups) = Inr (join_str newline (block_lines h g) # bs)"
    by (simp add: block_of_group [OF g] bs)
  have "join_str newline (join_str newline (block_lines h g) # bs)
      = join_str newline (concat (map (block_lines h) (g # groups)))"
  proof (cases "groups = []")
    case True
    then have "bs = []" using bs by simp
    then show ?thesis using True by simp
  next
    case False
    then obtain g' groups' where "groups = g' # groups'"
      by (cases groups) auto
    then have rest: "concat (map (block_lines h) groups) \<noteq> []"
      by (simp add: block_lines_def)
    have first: "block_lines h g \<noteq> []"
      by (simp add: block_lines_def)
    have "bs \<noteq> []"
      using bs \<open>groups = g' # groups'\<close> by (auto split: sum.splits)
    then have "join_str newline (join_str newline (block_lines h g) # bs)
        = join_str newline (block_lines h g) @ newline @ join_str newline bs"
      by (rule join_str_Cons)
    also have "\<dots> = join_str newline (block_lines h g) @ newline
        @ join_str newline (concat (map (block_lines h) groups))"
      by (simp only: join [OF False])
    also have "\<dots> = join_str newline (block_lines h g @ concat (map (block_lines h) groups))"
      by (rule join_str_append [OF first rest, symmetric])
    finally show ?thesis
      by simp
  qed
  then show ?case
    using m by simp
qed

lemma member_array_of_object:
  "member v k = JArr xs \<Longrightarrow> v \<noteq> JNull \<and> v \<noteq> JUndefined"
  by (cases v) simp_all

lemma member_object_of_object:
  "member (member v k) k' = JArr xs \<Longrightarrow> v \<noteq> JNull \<and> v \<noteq> JUndefined"
  by (cases v) simp_all

text \<open>
  C5, as the code has it. Let the query be one line, and let the upstream answer hold N
  groups that follow the data model and hold no line break: the upper case of every type
  label, and every name, genre and link member of every item. Then the lines of the text
  that begin with the headphone sign are exactly the N group headers, each with its
  type label in upper case, in the order of the answer; and the lines that begin with a
  number and a full stop are exactly the entries of the items, one per item in the order
  of the answer, the entry of the item at place i of its group carrying the number i:
  the numbers of every group run from 1 to its number of items and start again at 1 in
  the next group. With no group the text has no such line.
\<close>

theorem groups_and_entries_are_numbered:
  assumes "q \<noteq> []"
    and "one_line q"
    and "well_formed_text q"
    and "axios_get h (''https://devappradiofm.radiofm.co/rfm/api/new_combo_search.php?srch=''
           @ percent_encode q) = Inr body"
    and "member (member body ''data'') ''Data'' = JArr groups"
    and "list_all (is_group h) groups"
  shows "\<exists>text.
           callTool h (JStr q) =
             Inr (JObj [(''content'', JArr [JObj [(''type'', JStr ''text''), (''text'', JStr text)]])])
         \<and> filter is_header_line (lines_of text) = map (header_line h) groups
         \<and> filter is_entry_line (lines_of text) =
             concat (map (\<lambda>g. map (\<lambda>(n, item). entry_line n item) (enumerate 1 (group_items g)))
                         groups)"
proof -
  have body: "body \<noteq> JNull" "body \<noteq> JUndefined"
    using member_object_of_object [OF assms(5)] by simp_all
  have data: "get_prop body ''data'' = Inr (member body ''data'')"
    using body by (simp add: get_prop_member)
  have Data: "opt_chain (member body ''data'') ''Data'' = Inr (JArr groups)"
    using assms(5) by (simp add: opt_chain_member)
  have len: "get_prop (coalesce (JArr groups) (JArr [])) ''length''
      = Inr (JNum (show_nat (length groups)))"
    by (simp add: coalesce_def)
  have truth: "truthy (JNum (show_nat (length groups))) = (groups \<noteq> [])"
    by (simp only: truthy_length length_0_conv)
  from blocks_of_groups [OF assms(6), of 0] obtain bs
    where bs: "map_js (format_group h) 0 groups = Inr bs"
      and join: "groups \<noteq> [] \<Longrightarrow>
                  join_str newline bs = join_str newline (concat (map (block_lines h) groups))"
    by blast
  have query: "truthy (JStr q)"
    using assms(1) by simp
  define none where "none = [CHR 0xF0, CHR 0x9F, CHR 0x94, CHR 0x8D] @ '' No results found for ''
      @ [CHR 0x22] @ q @ [CHR 0x22] @ ''. Try different station names, countries, or genres.''"
  define first where "first = [CHR 0xF0, CHR 0x9F, CHR 0x94, CHR 0x8D] @ '' Results for ''
      @ [CHR 0x22] @ q @ [CHR 0x22] @ '':''"
  have call: "callTool h (JStr q) =
      Inr (JObj [(''content'', JArr [JObj [(''type'', JStr ''text''),
             (''text'', JStr (if groups = [] then none else first @ newline @ join_str newline bs))]])])"
    using assms(4) query
    by (simp add: callTool_def encodeURIComponent_well_formed [OF assms(3)] RADIOFM_API_def
        data Data len truth coalesce_def bs tool_result_def magnifier_def dquote_def
        none_def first_def del: truthy.simps)
  show ?thesis
  proof (cases "groups = []")
    case True
    have "one_line none"
      using assms(2) by (simp add: none_def one_line_def)
    then have "lines_of none = [none]"
      by (rule lines_of_one_line)
    moreover have "\<not> is_header_line none" "\<not> is_entry_line none"
      by (simp_all add: none_def is_header_line_def not_entry_if_no_digit is_digit_def)
    ultimately show ?thesis
      using call True by simp
  next
    case False
    define ls where "ls = concat (map (block_lines h) groups)"
    obtain g groups' where "groups = g # groups'"
      using False by (cases groups) auto
    then have ls_not_Nil: "ls \<noteq> []"
      by (simp add: ls_def block_lines_def)
    have "first @ newline @ join_str newline bs = join_str newline (first # ls)"
      using join [OF False] ls_not_Nil by (simp add: join_str_Cons ls_def)
    moreover have "list_all one_line (first # ls)"
    proof -
      have "one_line first"
        using assms(2) by (simp add: first_def one_line_def)
      moreover have "list_all one_line ls"
        using assms(6) block_lines_one_line
        by (auto simp add: ls_def list_all_iff)
      ultimately show ?thesis by simp
    qed
    ultimately have lines: "lines_of (first @ newline @ join_str newline bs) = first # ls"
      by (simp add: lines_of_join)
    have no: "\<not> is_header_line first" "\<not> is_entry_line first"
      by (simp_all add: first_def is_header_line_def not_entry_if_no_digit is_digit_def)
    have "filter is_header_line ls = map (header_line h) groups"
      by (simp add: ls_def filter_concat comp_def block_lines_headers)
    moreover have "filter is_entry_line ls =
        concat (map (\<lambda>g. map (\<lambda>(n, item). entry_line n item) (enumerate 1 (group_items g)))
                    groups)"
      by (simp add: ls_def filter_concat comp_def block_lines_entries)
    ultimately show ?thesis
      using call False lines no by simp
  qed
qed

lemma ascii_upper_podcast: "ascii_upper ''podcast'' = ''PODCAST''"
  by code_simp

lemma decimal_two: "decimal (Suc (Suc 0)) = ''2''"
  by code_simp

theorem groups_and_entries_are_numbered_witness:
  "\<exists>text.
     callTool (answering bbc_body) (JStr ''BBC'') =
       Inr (JObj [(''content'', JArr [JObj [(''type'', JStr ''text''), (''text'', JStr text)]])])
     \<and> filter is_header_line (lines_of text) =
         [[CHR 0xF0, CHR 0x9F, CHR 0x8E, CHR 0xA7] @ '' STATION'',
          [CHR 0xF0, CHR 0x9F, CHR 0x8E, CHR 0xA7] @ '' PODCAST'']
     \<and> filter is_entry_line (lines_of text) =
         [''1. BBC Radio 1 (Pop)'', ''2. BBC Radio 2 (Adult)'', ''1. BBC Newscast (News)'']"
proof -
  have groups: "list_all (is_group (answering bbc_body))
     [JObj [(''type'', JStr ''station''),
             (''data'', JArr [
                JObj [(''st_name'', JStr ''BBC Radio 1''), (''st_genre'', JStr ''Pop''),
                      (''st_shorturl'', JStr ''bbc1'')],
                JObj [(''st_name'', JStr ''BBC Radio 2''), (''st_genre'', JStr ''Adult''),
                      (''deeplink'', JStr ''https://rfm.example/bbc2'')]])],
       JObj [(''type'', JStr ''podcast''),
             (''data'', JArr [
                JObj [(''p_name'', JStr ''BBC Newscast''), (''cat_name'', JStr ''News''),
                      (''st_shorturl'', JStr ''newscast'')]])]]"
    by (simp add: is_group_def is_item_def item_members_def one_line_def answering_def
        ascii_upper_station ascii_upper_podcast)
  from groups_and_entries_are_numbered [of "''BBC''" "answering bbc_body" bbc_body _, OF _ _ _ _ _ groups]
  show ?thesis
    by (simp add: answering_def bbc_body_def one_line_def well_formed_text_def header_line_def
        group_label_def group_items_def entry_line_def chosen_def decimal_one decimal_two
        ascii_upper_station ascii_upper_podcast eval_nat_numeral)
qed

text \<open>
  C5 as the specification words it fails where a member holds line breaks: one group
  with one item, whose name is three lines, gives a text with two header lines and two
  numbered lines.
\<close>

theorem line_break_in_a_name_adds_a_header:
  "filter is_header_line (lines_of (text_of (callTool (answering tricky_body) (JStr ''BBC''))))
     = [[CHR 0xF0, CHR 0x9F, CHR 0x8E, CHR 0xA7] @ '' STATION'',
        [CHR 0xF0, CHR 0x9F, CHR 0x8E, CHR 0xA7] @ '' FAKE'']
   \<and> filter is_header_line (lines_of (text_of (callTool (answering tricky_body) (JStr ''BBC''))))
     \<noteq> map (header_line (answering tricky_body)) [tricky_group]
   \<and> filter is_entry_line (lines_of (text_of (callTool (answering tricky_body) (JStr ''BBC''))))
     = [''1. x'', ''2. y (Pop)'']
   \<and> member (member tricky_body ''data'') ''Data'' = JArr [tricky_group]
   \<and> length (group_items tricky_group) = 1"
proof -
  have "callTool (answering tricky_body) (JStr ''BBC'') =
      Inr (tool_result
        (magnifier @ '' Results for '' @ dquote @ ''BBC'' @ dquote @ '':'' @ newline
         @ newline @ headphone @ '' STATION'' @ newline
         @ ''1. x'' @ newline @ headphone @ '' FAKE'' @ newline @ ''2. y (Pop)'' @ newline
         @ play_mark @ '' https://appradiofm.com/radioplay/bbc1''))"
    by (simp add: callTool_def answering_def tricky_body_def tricky_group_def own_prop_def
        opt_chain_def coalesce_def format_group_def format_item_def item_name_def item_genre_def
        item_link_def show_nat_one ascii_upper_station encodeURIComponent_def headphone_def
        newline_def)
  then show ?thesis
    by (simp add: text_of_def tool_result_def magnifier_def dquote_def newline_def headphone_def
        play_mark_def is_header_line_def is_entry_line_def is_digit_def header_line_def
        group_label_def group_items_def tricky_body_def tricky_group_def answering_def
        ascii_upper_station)
qed

section \<open>Further properties of the bridge\<close>

text \<open>
  The tool list over POST is the value of \<^verbatim>\<open>listTools\<close>, the function that is also
  registered on the streaming server: one descriptor, \<^verbatim>\<open>search_radio_stations\<close>, whose
  input schema requires the one property \<^verbatim>\<open>query\<close>.
\<close>

theorem tools_list_is_the_registry:
  assumes "get_prop body ''method'' = Inr (JStr ''tools/list'')"
    and "get_prop body ''id'' = Inr rid"
  shows "post_mcp h body = Responded (json_response 200 (rpc_result rid listTools))
       \<and> (\<exists>tool schema.
             get_prop listTools ''tools'' = Inr (JArr [tool])
           \<and> get_prop tool ''name'' = Inr (JStr ''search_radio_stations'')
           \<and> get_prop tool ''inputSchema'' = Inr schema
           \<and> get_prop schema ''required'' = Inr (JArr [JStr ''query'']))"
proof -
  obtain params where "get_prop body ''params'' = Inr params"
    using get_prop_other [OF assms(1)] by blast
  then have "post_mcp h body = Responded (json_response 200 (rpc_result rid listTools))"
    using assms by (simp add: post_mcp_dispatch post_try_def listTools_def own_prop_def)
  moreover have "\<exists>tool schema.
             get_prop listTools ''tools'' = Inr (JArr [tool])
           \<and> get_prop tool ''name'' = Inr (JStr ''search_radio_stations'')
           \<and> get_prop tool ''inputSchema'' = Inr schema
           \<and> get_prop schema ''required'' = Inr (JArr [JStr ''query''])"
    by (simp add: listTools_def own_prop_def)
  ultimately show ?thesis by simp
qed

theorem tools_list_is_the_registry_witness:
  "post_mcp offline_host
     (JObj [(''jsonrpc'', JStr ''2.0''), (''id'', JNum ''2''), (''method'', JStr ''tools/list'')])
   = Responded (json_response 200 (rpc_result (JNum ''2'') listTools))"
  using tools_list_is_the_registry [of
     "JObj [(''jsonrpc'', JStr ''2.0''), (''id'', JNum ''2''), (''method'', JStr ''tools/list'')]"
     "JNum ''2''" offline_host]
  by (simp add: own_prop_def)

text \<open>
  The scenario of the specification: the query \<^verbatim>\<open>BBC\<close> and an upstream answer of one
  group \<^verbatim>\<open>station\<close> with the one item BBC Radio 1.
\<close>

theorem bbc_scenario:
  "callTool
     (answering (JObj [(''data'', JObj [(''Data'', JArr [
        JObj [(''type'', JStr ''station''),
              (''data'', JArr [JObj [(''st_name'', JStr ''BBC Radio 1''), (''st_genre'', JStr ''Pop''),
                                     (''st_shorturl'', JStr ''bbc1'')]])]])])]))
     (JStr ''BBC'')
   = Inr (tool_result
       (magnifier @ '' Results for '' @ dquote @ ''BBC'' @ dquote @ '':'' @ newline
        @ newline @ headphone @ '' STATION'' @ newline
        @ ''1. BBC Radio 1 (Pop)'' @ newline
        @ play_mark @ '' https://appradiofm.com/radioplay/bbc1''))"
  by (simp add: callTool_def answering_def own_prop_def opt_chain_def coalesce_def
      format_group_def format_item_def item_name_def item_genre_def item_link_def
      show_nat_one ascii_upper_station encodeURIComponent_def)

end
